theory Spec2Isabelle
  imports Complex_Main "HOL-Library.AList"
begin

section \<open>Python values and dictionaries\<close>

text \<open>
  The checkpoint module (\<^verbatim>\<open>resume.py\<close>) stores named Python values. The
  embedding uses a fragment of Python 2 values whose behaviour under the three
  operations the module applies to a value is certain: \<^verbatim>\<open>isinstance\<close>,
  \<^verbatim>\<open>hasattr(value, '__dict__')\<close> and the slice assignment
  \<^verbatim>\<open>target[:] = value\<close>. \<open>PInstance c\<close> is an instance of a new-style
  user class \<open>c\<close> that derives from \<^verbatim>\<open>object\<close> and defines no special
  methods. Values are compared by content: references and aliasing are not
  modelled, and numpy arrays are outside the fragment.
\<close>

datatype pytype =
    BooleanType | ComplexType | DictionaryType | FloatType | IntType | ListType
  | LongType | NoneType | StringType | TupleType | UnicodeType
  | NdarrayType | GenericType
  | BaseStringType | ObjectType | ClassType string

datatype pyval =
    PNone
  | PBool bool
  | PInt int
  | PStr string
  | PTuple "pyval list"
  | PList "pyval list"
  | PInstance string

fun type_of :: "pyval \<Rightarrow> pytype" where
  "type_of PNone = NoneType"
| "type_of (PBool b) = BooleanType"
| "type_of (PInt n) = IntType"
| "type_of (PStr s) = StringType"
| "type_of (PTuple xs) = TupleType"
| "type_of (PList xs) = ListType"
| "type_of (PInstance c) = ClassType c"

text \<open>The method resolution order of a type: the type itself, then its bases.\<close>

fun mro :: "pytype \<Rightarrow> pytype list" where
  "mro BooleanType = [BooleanType, IntType, ObjectType]"
| "mro StringType = [StringType, BaseStringType, ObjectType]"
| "mro UnicodeType = [UnicodeType, BaseStringType, ObjectType]"
| "mro ObjectType = [ObjectType]"
| "mro t = [t, ObjectType]"

definition isinstance :: "pyval \<Rightarrow> pytype list \<Rightarrow> bool" where
  "isinstance v ts = list_ex (\<lambda>t. t \<in> set (mro (type_of v))) ts"

fun hasattr_dict :: "pyval \<Rightarrow> bool" where
  "hasattr_dict (PInstance c) = True"
| "hasattr_dict v = False"

text \<open>
  A Python \<^verbatim>\<open>dict\<close> with string keys is an association list; its order is
  the iteration order of \<^verbatim>\<open>items()\<close>. A well-formed dictionary has distinct
  keys. \<^verbatim>\<open>d[k] = v\<close> is \<open>AList.update k v d\<close>, \<^verbatim>\<open>d.get(k)\<close> is
  \<open>map_of d k\<close>.
\<close>

type_synonym pydict = "(string \<times> pyval) list"

definition has_key :: "pydict \<Rightarrow> string \<Rightarrow> bool" where
  "has_key d k = (map_of d k \<noteq> None)"

definition dict_update :: "pydict \<Rightarrow> pydict \<Rightarrow> pydict" where
  "dict_update d other = fold (\<lambda>(k, v) acc. AList.update k v acc) other d"

section \<open>The filter: \<^verbatim>\<open>Checkpoint.must_save\<close>\<close>

definition NUMPY_RAND_SEED :: string where
  "NUMPY_RAND_SEED = ''__rand_seed__''"

definition ALLOWED_TYPES_default :: "pytype list" where
  "ALLOWED_TYPES_default =
     [BooleanType, ComplexType, DictionaryType, FloatType, IntType, ListType,
      LongType, NoneType, StringType, TupleType, UnicodeType,
      NdarrayType, GenericType]"

definition add_types :: "pytype list \<Rightarrow> pytype list \<Rightarrow> pytype list" where
  "add_types allowed new_types = remdups (allowed @ new_types)"

text \<open>
  \<^verbatim>\<open>reg_exclude = re.compile(r'\b_|.*_$', re.DOTALL | re.I)\<close>, applied with
  \<^verbatim>\<open>match\<close>, which anchors at position 0.

  First alternative \<^verbatim>\<open>\b_\<close>: at position 0 there is a word boundary exactly
  when the first character is a word character, and the underscore is one.

  Second alternative \<^verbatim>\<open>.*_$\<close>: with \<^verbatim>\<open>DOTALL\<close> the dot takes any
  character; \<^verbatim>\<open>$\<close> (no \<^verbatim>\<open>MULTILINE\<close>) holds at the end of the string and
  just before a newline that ends the string.
\<close>

definition newline :: char where
  "newline = CHR 0x0A"

definition at_dollar :: "string \<Rightarrow> bool" where
  "at_dollar rest = (rest = [] \<or> rest = [newline])"

fun match_boundary_underscore :: "string \<Rightarrow> bool" where
  "match_boundary_underscore [] = False"
| "match_boundary_underscore (c # cs) = (c = CHR ''_'')"

fun match_any_underscore_end :: "string \<Rightarrow> bool" where
  "match_any_underscore_end [] = False"
| "match_any_underscore_end (c # cs) =
     ((c = CHR ''_'' \<and> at_dollar cs) \<or> match_any_underscore_end cs)"

definition reg_exclude_match :: "string \<Rightarrow> bool" where
  "reg_exclude_match key =
     (match_boundary_underscore key \<or> match_any_underscore_end key)"

definition must_save :: "pytype list \<Rightarrow> string \<Rightarrow> pyval \<Rightarrow> bool" where
  "must_save allowed key val =
     (if reg_exclude_match key then False
      else if hasattr_dict val then False
      else isinstance val allowed)"

section \<open>Frames, the checkpoint object and the outside world\<close>

text \<open>
  The caller's frame, as the module reads it through \<^verbatim>\<open>inspect\<close>:
  \<^verbatim>\<open>frame.f_locals\<close> (the names bound at the moment of the call) and, of
  \<^verbatim>\<open>frame.f_code\<close>, \<^verbatim>\<open>co_varnames\<close>, \<^verbatim>\<open>co_argcount\<close> and the two
  flags \<^verbatim>\<open>CO_VARARGS\<close> and \<^verbatim>\<open>CO_VARKEYWORDS\<close> of \<^verbatim>\<open>co_flags\<close>.
  In CPython \<^verbatim>\<open>co_varnames\<close> lists the positional parameters first, then the
  name of \<^verbatim>\<open>*args\<close>, then the name of \<^verbatim>\<open>**kwargs\<close>, then the other
  locals; \<^verbatim>\<open>co_argcount\<close> counts the positional parameters only.
\<close>

record frame =
  f_locals :: pydict
  co_varnames :: "string list"
  co_argcount :: nat
  co_varargs :: bool
  co_varkeywords :: bool

text \<open>\<^verbatim>\<open>calling_args = code.co_varnames[:code.co_argcount]\<close>\<close>

definition calling_args :: "frame \<Rightarrow> string list" where
  "calling_args fr = take (co_argcount fr) (co_varnames fr)"

text \<open>All parameter names of the routine, as \<^verbatim>\<open>inspect.getargs\<close> reads them.\<close>

definition parameters :: "frame \<Rightarrow> string list" where
  "parameters fr =
     take (co_argcount fr + (if co_varargs fr then 1 else 0)
             + (if co_varkeywords fr then 1 else 0))
       (co_varnames fr)"

text \<open>
  A \<^verbatim>\<open>Checkpoint\<close> is a \<^verbatim>\<open>dict\<close> (its own items are \<open>entries\<close>) with the
  attributes \<^verbatim>\<open>_cached\<close>, \<^verbatim>\<open>modified\<close>, \<^verbatim>\<open>rate\<close> and \<^verbatim>\<open>filename\<close>.
  \<open>ALLOWED_TYPES\<close> is the class attribute, read through \<^verbatim>\<open>self\<close>.
  Times are the readings of \<^verbatim>\<open>time.time()\<close>, as exact numbers.
\<close>

record checkpoint =
  entries :: pydict
  cached :: pydict
  modified :: real
  rate :: real
  filename :: string
  ALLOWED_TYPES :: "pytype list"

definition CACHE_EXPIRE :: real where
  "CACHE_EXPIRE = 24 * 3600"

text \<open>
  A file holds either the compressed pickle of a dictionary or bytes that do
  not decode. The world is the file system (path to file), the state of numpy's
  generator (the Mersenne Twister state, abstracted to one integer) and
  \<open>writes\<close>, a counter of the on-disk writes performed so far.
\<close>

datatype file_content = Pickled pydict | Corrupt

record pfile =
  st_mtime :: real
  content :: file_content

record world =
  files :: "string \<rightharpoonup> pfile"
  rng :: int
  writes :: nat

datatype error = DeserializationError | InvalidRandomState

text \<open>\<^verbatim>\<open>pickle.load\<close> through \<^verbatim>\<open>gzip.GzipFile\<close>: raises on undecodable content.\<close>

fun pickle_load :: "file_content \<Rightarrow> error + pydict" where
  "pickle_load (Pickled d) = Inr d"
| "pickle_load Corrupt = Inl DeserializationError"

text \<open>\<^verbatim>\<open>np.random.get_state()\<close> and \<^verbatim>\<open>np.random.set_state(seed)\<close>.\<close>

definition get_state :: "world \<Rightarrow> pyval" where
  "get_state w = PTuple [PStr ''MT19937'', PInt (rng w)]"

fun state_of :: "pyval \<Rightarrow> int option" where
  "state_of (PTuple [PStr s, PInt r]) = (if s = ''MT19937'' then Some r else None)"
| "state_of v = None"

definition set_state :: "pyval \<Rightarrow> world \<Rightarrow> error + world" where
  "set_state seed w =
     (case state_of seed of
        None \<Rightarrow> Inl InvalidRandomState
      | Some r \<Rightarrow> Inr (w\<lparr>rng := r\<rparr>))"

section \<open>Capture: \<^verbatim>\<open>Checkpoint.context\<close> and \<^verbatim>\<open>Checkpoint.save\<close>\<close>

text \<open>
  The loop of \<^verbatim>\<open>context\<close> over \<^verbatim>\<open>loc.items()\<close>; for an item of a
  dictionary, \<^verbatim>\<open>loc[key]\<close> is the item's value.
\<close>

fun context_loop :: "pytype list \<Rightarrow> string list \<Rightarrow> pydict \<Rightarrow> pydict \<Rightarrow> pydict" where
  "context_loop allowed args [] data = data"
| "context_loop allowed args ((key, val) # rest) data =
     (if key \<in> set args then context_loop allowed args rest data
      else if must_save allowed key val
        then context_loop allowed args rest (AList.update key val data)
      else context_loop allowed args rest data)"

text \<open>
  \<open>caller\<close> is the first frame outside the module, which \<^verbatim>\<open>context\<close> finds by
  walking \<^verbatim>\<open>f_back\<close>.
\<close>

definition "context" :: "checkpoint \<Rightarrow> frame \<Rightarrow> pydict" where
  "context self caller =
     context_loop (ALLOWED_TYPES self) (calling_args caller) (f_locals caller) (entries self)"

text \<open>The dictionary \<^verbatim>\<open>save\<close> pickles (its first three statements).\<close>

definition save_context :: "checkpoint \<Rightarrow> pydict \<Rightarrow> frame \<Rightarrow> pydict" where
  "save_context self data caller =
     dict_update (dict_update (context self caller) (entries self)) data"

text \<open>
  \<^verbatim>\<open>save(**data)\<close>. The write is taken to succeed (directories, permissions and
  disk space are not modelled); \<open>now\<close> is the clock at the write, also read into
  \<^verbatim>\<open>self.modified\<close>.
\<close>

definition save :: "checkpoint \<Rightarrow> pydict \<Rightarrow> frame \<Rightarrow> real \<Rightarrow> world \<Rightarrow> checkpoint \<times> world" where
  "save self data caller now w =
     (self\<lparr>modified := now\<rparr>,
      w\<lparr>files := (files w)(filename self \<mapsto>
             \<lparr>st_mtime = now, content = Pickled (save_context self data caller)\<rparr>),
        writes := Suc (writes w)\<rparr>)"

definition sync :: "checkpoint \<Rightarrow> frame \<Rightarrow> real \<Rightarrow> real \<Rightarrow> world \<Rightarrow> checkpoint \<times> world" where
  "sync self caller now now_saved w =
     (if now - modified self \<ge> rate self then save self [] caller now_saved w
      else (self, w))"

section \<open>Construction: \<^verbatim>\<open>_load\<close>, \<^verbatim>\<open>_recover_internal_status\<close>, \<^verbatim>\<open>__init__\<close>\<close>

definition load :: "checkpoint \<Rightarrow> bool \<Rightarrow> real \<Rightarrow> world \<Rightarrow> error + pydict" where
  "load self clean now w =
     (case files w (filename self) of
        None \<Rightarrow> Inr []
      | Some f \<Rightarrow>
          if clean \<or> now - st_mtime f > CACHE_EXPIRE then Inr []
          else pickle_load (content f))"

definition recover_internal_status ::
  "checkpoint \<Rightarrow> pydict \<Rightarrow> frame \<Rightarrow> real \<Rightarrow> world \<Rightarrow> error + checkpoint \<times> world" where
  "recover_internal_status self data caller now w =
     (let data = dict_update data (cached self);
          seed = (case map_of data NUMPY_RAND_SEED of None \<Rightarrow> PNone | Some v \<Rightarrow> v)
      in if seed \<noteq> PNone then
           (case set_state seed w of
              Inl e \<Rightarrow> Inl e
            | Inr w' \<Rightarrow>
                Inr (self\<lparr>entries := AList.update NUMPY_RAND_SEED seed (entries self)\<rparr>, w'))
         else
           (let seed = get_state w;
                self = self\<lparr>entries := AList.update NUMPY_RAND_SEED seed (entries self)\<rparr>
            in Inr (save self [] caller now w)))"

text \<open>
  \<^verbatim>\<open>__init__\<close> after the path search: \<open>fname\<close> is the resolved path,
  \<open>allowed\<close> the class attribute at the time, \<open>caller\<close> the frame that
  constructs the checkpoint, \<open>now\<close> the clock read by \<^verbatim>\<open>_load\<close> and
  \<open>now_saved\<close> the clock at the first save.
\<close>

definition new_checkpoint :: "string \<Rightarrow> real \<Rightarrow> pytype list \<Rightarrow> checkpoint" where
  "new_checkpoint fname rate0 allowed =
     \<lparr>entries = [], cached = [], modified = 0, rate = rate0,
      filename = fname, ALLOWED_TYPES = allowed\<rparr>"

definition init ::
  "string \<Rightarrow> bool \<Rightarrow> real \<Rightarrow> pytype list \<Rightarrow> frame \<Rightarrow> real \<Rightarrow> real \<Rightarrow> world
     \<Rightarrow> error + checkpoint \<times> world" where
  "init fname clean rate0 allowed caller now now_saved w =
     (let self = new_checkpoint fname rate0 allowed
      in case load self clean now w of
           Inl e \<Rightarrow> Inl e
         | Inr data \<Rightarrow>
             recover_internal_status (self\<lparr>cached := data\<rparr>) [] caller now_saved w)"

section \<open>Injection: \<^verbatim>\<open>Checkpoint.restore\<close>\<close>

text \<open>
  Iterating a value: strings, tuples and lists are iterable; \<^verbatim>\<open>None\<close>,
  booleans, integers and plain instances are not.
\<close>

fun elems :: "pyval \<Rightarrow> pyval list option" where
  "elems (PStr s) = Some (map (\<lambda>c. PStr [c]) s)"
| "elems (PTuple xs) = Some xs"
| "elems (PList xs) = Some xs"
| "elems v = None"

text \<open>
  \<^verbatim>\<open>target[:] = value\<close>: \<open>Some\<close> the new content of the target, \<open>None\<close> for
  \<^verbatim>\<open>TypeError\<close>. Only a list takes a slice assignment, and only from an
  iterable.
\<close>

fun setslice :: "pyval \<Rightarrow> pyval \<Rightarrow> pyval option" where
  "setslice (PList xs) v = map_option PList (elems v)"
| "setslice t v = None"

text \<open>\<^verbatim>\<open>try: self[key][:] = value   except TypeError: self[key] = value\<close>\<close>

definition assign_in_place :: "pydict \<Rightarrow> string \<Rightarrow> pyval \<Rightarrow> pydict" where
  "assign_in_place d key val =
     (case map_of d key of
        None \<Rightarrow> d
      | Some target \<Rightarrow>
          (case setslice target val of
             Some target' \<Rightarrow> AList.update key target' d
           | None \<Rightarrow> AList.update key val d))"

text \<open>The loop of \<^verbatim>\<open>restore\<close> over \<^verbatim>\<open>data.items()\<close>, on \<open>(loc, self)\<close>.\<close>

fun restore_loop :: "string list \<Rightarrow> pydict \<Rightarrow> pydict \<Rightarrow> pydict \<Rightarrow> pydict \<times> pydict" where
  "restore_loop args [] loc ents = (loc, ents)"
| "restore_loop args ((key, val) # rest) loc ents =
     (if key \<in> set args then restore_loop args rest loc ents
      else if has_key loc key then restore_loop args rest (AList.update key val loc) ents
      else if has_key ents key then restore_loop args rest loc (assign_in_place ents key val)
      else restore_loop args rest loc ents)"

text \<open>
  \<^verbatim>\<open>restore(**data)\<close>. \<^verbatim>\<open>PyFrame_LocalsToFast\<close> makes the updated \<open>loc\<close>
  the caller's variables; at the end \<^verbatim>\<open>_cached\<close> is cleared.
\<close>

definition restore :: "checkpoint \<Rightarrow> pydict \<Rightarrow> frame \<Rightarrow> checkpoint \<times> frame" where
  "restore self data caller =
     (let data = dict_update data (cached self);
          (loc, ents) = restore_loop (calling_args caller) data (f_locals caller) (entries self)
      in (self\<lparr>entries := ents, cached := []\<rparr>, caller\<lparr>f_locals := loc\<rparr>))"

text \<open>What a path holds on disk, when it decodes.\<close>

definition persisted :: "world \<Rightarrow> string \<Rightarrow> pydict option" where
  "persisted w path =
     (case files w path of
        None \<Rightarrow> None
      | Some f \<Rightarrow> (case content f of Pickled d \<Rightarrow> Some d | Corrupt \<Rightarrow> None))"

section \<open>Sample objects\<close>

text \<open>
  Concrete inputs on which the definitions are evaluated below: a world with no
  file, the frame of a routine without \<^verbatim>\<open>*args\<close> or \<^verbatim>\<open>**kwargs\<close>, and a
  checkpoint on \<^verbatim>\<open>f.pzip\<close> with rate 30 and the default whitelist.
\<close>

definition empty_world :: world where
  "empty_world = \<lparr>files = Map.empty, rng = 0, writes = 0\<rparr>"

definition plain_frame :: "string list \<Rightarrow> nat \<Rightarrow> pydict \<Rightarrow> frame" where
  "plain_frame names argcount loc =
     \<lparr>f_locals = loc, co_varnames = names, co_argcount = argcount,
      co_varargs = False, co_varkeywords = False\<rparr>"

definition sample_checkpoint :: "pydict \<Rightarrow> pydict \<Rightarrow> checkpoint" where
  "sample_checkpoint ents snap =
     (new_checkpoint ''f.pzip'' 30 ALLOWED_TYPES_default)\<lparr>entries := ents, cached := snap\<rparr>"

definition sample_seed :: pyval where
  "sample_seed = PTuple [PStr ''MT19937'', PInt 7]"

lemmas sample_defs =
  empty_world_def plain_frame_def sample_checkpoint_def sample_seed_def new_checkpoint_def
  ALLOWED_TYPES_default_def NUMPY_RAND_SEED_def calling_args_def parameters_def

lemmas filter_defs =
  must_save_def reg_exclude_match_def at_dollar_def isinstance_def newline_def

section \<open>Dictionaries and the two loops\<close>

lemma map_of_dict_update:
  "distinct (map fst other) \<Longrightarrow>
   map_of (dict_update d other) k =
     (case map_of other k of Some v \<Rightarrow> Some v | None \<Rightarrow> map_of d k)"
  unfolding dict_update_def
proof (induction other arbitrary: d)
  case Nil
  then show ?case by simp
next
  case (Cons a other)
  obtain x y where a: "a = (x, y)" by (cases a)
  from Cons.prems a have nx: "map_of other x = None" and d: "distinct (map fst other)"
    by (auto simp: map_of_eq_None_iff)
  show ?case using Cons.IH [OF d, of "AList.update x y d"] nx
    by (simp add: a AList.update_conv' split: option.splits)
qed


lemma map_of_context_loop:
  "distinct (map fst items) \<Longrightarrow>
   map_of (context_loop allowed args items data) k =
     (case map_of items k of
        Some v \<Rightarrow> if k \<notin> set args \<and> must_save allowed k v then Some v else map_of data k
      | None \<Rightarrow> map_of data k)"
proof (induction items arbitrary: data)
  case Nil
  then show ?case by simp
next
  case (Cons a items)
  obtain x y where a: "a = (x, y)" by (cases a)
  from Cons.prems a have nx: "map_of items x = None" and d: "distinct (map fst items)"
    by (auto simp: map_of_eq_None_iff)
  show ?case
  proof (cases "k = x")
    case True
    have ih: "map_of (context_loop allowed args items data') x = map_of data' x" for data'
      using Cons.IH [OF d, of data'] nx True by simp
    show ?thesis
      by (simp add: a True ih AList.update_conv')
  next
    case False
    then show ?thesis
      by (simp add: a Cons.IH [OF d] AList.update_conv' split: option.splits)
  qed
qed


lemma map_of_context:
  "distinct (map fst (f_locals caller)) \<Longrightarrow>
   map_of (context self caller) k =
     (case map_of (f_locals caller) k of
        Some v \<Rightarrow>
          if k \<notin> set (calling_args caller) \<and> must_save (ALLOWED_TYPES self) k v
          then Some v else map_of (entries self) k
      | None \<Rightarrow> map_of (entries self) k)"
  unfolding context_def by (rule map_of_context_loop)

lemma map_of_save_context:
  assumes "distinct (map fst (f_locals caller))"
    and "distinct (map fst (entries self))"
    and "distinct (map fst data)"
  shows "map_of (save_context self data caller) k =
     (case map_of data k of
        Some v \<Rightarrow> Some v
      | None \<Rightarrow>
          (case map_of (entries self) k of
             Some v \<Rightarrow> Some v
           | None \<Rightarrow>
               (case map_of (f_locals caller) k of
                  Some v \<Rightarrow>
                    if k \<notin> set (calling_args caller) \<and> must_save (ALLOWED_TYPES self) k v
                    then Some v else None
                | None \<Rightarrow> None)))"
  unfolding save_context_def
  by (simp add: map_of_dict_update assms map_of_context split: option.splits)

lemma persisted_save:
  "persisted (snd (save self data caller now w)) (filename self) =
     Some (save_context self data caller)"
  by (simp add: persisted_def save_def)

text \<open>The loop of \<^verbatim>\<open>restore\<close> assigns existing keys only.\<close>

lemma has_key_update: "has_key (AList.update k v d) k' \<longleftrightarrow> k' = k \<or> has_key d k'"
  by (simp add: has_key_def AList.update_conv')

lemma has_key_assign_in_place:
  "has_key (assign_in_place d k v) k' \<longleftrightarrow> has_key d k'"
  by (auto simp: assign_in_place_def has_key_def AList.update_conv' split: option.splits)

lemma restore_loop_keys:
  "restore_loop args items loc ents = (loc', ents') \<Longrightarrow>
   (has_key loc' k \<longleftrightarrow> has_key loc k) \<and> (has_key ents' k \<longleftrightarrow> has_key ents k)"
proof (induction args items loc ents rule: restore_loop.induct)
  case (1 args loc ents)
  then show ?case by simp
next
  case (2 args key val rest loc ents)
  then show ?case
    by (auto simp: has_key_update has_key_assign_in_place split: if_splits)
qed

lemma restore_loop_args:
  "restore_loop args items loc ents = (loc', ents') \<Longrightarrow> k \<in> set args \<Longrightarrow>
   map_of loc' k = map_of loc k \<and> map_of ents' k = map_of ents k"
proof (induction args items loc ents rule: restore_loop.induct)
  case (1 args loc ents)
  then show ?case by simp
next
  case (2 args key val rest loc ents)
  then show ?case
    by (auto simp: AList.update_conv' assign_in_place_def split: if_splits option.splits)
qed



section \<open>Facts about the operations\<close>


lemma restore_f_locals:
  "f_locals (snd (restore self data caller)) =
     fst (restore_loop (calling_args caller) (dict_update data (cached self))
            (f_locals caller) (entries self))"
  by (simp add: restore_def Let_def split: prod.splits)

lemma restore_entries:
  "entries (fst (restore self data caller)) =
     snd (restore_loop (calling_args caller) (dict_update data (cached self))
            (f_locals caller) (entries self))"
  by (simp add: restore_def Let_def split: prod.splits)

lemma restore_cached: "cached (fst (restore self data caller)) = []"
  by (simp add: restore_def Let_def split: prod.splits)

lemma restore_keeps_calling_args:
  "k \<in> set (calling_args caller) \<Longrightarrow>
   map_of (f_locals (snd (restore self data caller))) k = map_of (f_locals caller) k"
  unfolding restore_f_locals
  using restore_loop_args [OF surjective_pairing] by blast

lemma save_fields:
  "modified (fst (save self data caller now w)) = now"
  "rate (fst (save self data caller now w)) = rate self"
  "filename (fst (save self data caller now w)) = filename self"
  "entries (fst (save self data caller now w)) = entries self"
  "writes (snd (save self data caller now w)) = Suc (writes w)"
  "rng (snd (save self data caller now w)) = rng w"
  by (simp_all add: save_def)

lemma dict_update_Nil: "dict_update d [] = d"
  by (simp add: dict_update_def)

lemma map_of_save_context_entry:
  "entries self = [(k, v)] \<Longrightarrow> map_of (save_context self [] caller) k = Some v"
  by (simp add: save_context_def dict_update_Nil map_of_dict_update)

lemma match_any_underscore_end_iff:
  "match_any_underscore_end s \<longleftrightarrow>
     (\<exists>p. s = p @ [CHR ''_'']) \<or> (\<exists>p. s = p @ [CHR ''_'', newline])"
proof (induction s)
  case Nil
  then show ?case by simp
next
  case (Cons c cs)
  show ?case
  proof
    assume "match_any_underscore_end (c # cs)"
    then consider "c = CHR ''_''" "at_dollar cs" | "match_any_underscore_end cs" by auto
    then show "(\<exists>p. c # cs = p @ [CHR ''_'']) \<or> (\<exists>p. c # cs = p @ [CHR ''_'', newline])"
    proof cases
      case 1
      then show ?thesis by (auto simp: at_dollar_def)
    next
      case 2
      with Cons.IH show ?thesis by (metis append_Cons)
    qed
  next
    assume "(\<exists>p. c # cs = p @ [CHR ''_'']) \<or> (\<exists>p. c # cs = p @ [CHR ''_'', newline])"
    then show "match_any_underscore_end (c # cs)"
      using Cons.IH by (auto simp: at_dollar_def Cons_eq_append_conv)
  qed
qed

lemma ends_with_char: "(\<exists>p. s = p @ [c]) \<longleftrightarrow> s \<noteq> [] \<and> last s = c"
  by (metis append_butlast_last_id last_snoc snoc_eq_iff_butlast)

lemma match_boundary_underscore_iff:
  "match_boundary_underscore s \<longleftrightarrow> s \<noteq> [] \<and> hd s = CHR ''_''"
  by (cases s) auto

section \<open>The repository's test on the model\<close>

text \<open>
  \<^verbatim>\<open>test_checkpoint\<close> of \<^verbatim>\<open>tests/test_checkpoints.py\<close>: construct with
  \<^verbatim>\<open>clean=True\<close>, set \<^verbatim>\<open>foo = 'bar'\<close>, save; construct again on the same
  file, set \<^verbatim>\<open>foo = 'buzz'\<close>, restore; then \<^verbatim>\<open>foo == 'bar'\<close>.
\<close>

lemma test_checkpoint_scenario:
  "(case init ''f.pzip'' True 30 ALLOWED_TYPES_default
           (plain_frame [''chp'', ''foo'', ''filename'', ''chp2''] 0 []) 1000 1001 empty_world of
      Inl e \<Rightarrow> None
    | Inr (chp, w1) \<Rightarrow>
        (case save chp []
                (plain_frame [''chp'', ''foo'', ''filename'', ''chp2''] 0
                   [(''chp'', PInstance ''Checkpoint''), (''foo'', PStr ''bar'')]) 1002 w1 of
           (chp', w2) \<Rightarrow>
             (case init ''f.pzip'' False 30 ALLOWED_TYPES_default
                     (plain_frame [''chp'', ''foo'', ''filename'', ''chp2''] 0
                        [(''foo'', PStr ''bar''), (''filename'', PStr ''f.pzip'')])
                     1003 1004 w2 of
                Inl e \<Rightarrow> None
              | Inr (chp2, w3) \<Rightarrow>
                  map_of (f_locals (snd (restore chp2 []
                    (plain_frame [''chp'', ''foo'', ''filename'', ''chp2''] 0
                       [(''foo'', PStr ''buzz''), (''filename'', PStr ''f.pzip''),
                        (''chp2'', PInstance ''Checkpoint'')])))) ''foo'')))
     = Some (PStr ''bar'')"
  by (simp add: init_def load_def recover_internal_status_def save_def save_context_def
      context_def restore_def dict_update_def set_state_def get_state_def has_key_def
      assign_in_place_def CACHE_EXPIRE_def Let_def sample_defs filter_defs)

section \<open>Properties\<close>

text \<open>
  Claim C1, as stated: in the dictionary \<^verbatim>\<open>save\<close> writes, explicit data
  overrides scope-captured values, and scope-captured values override the
  checkpoint's own entries, so that a key bound both in the caller's eligible
  locals and in the checkpoint is persisted with the local's value. This fails:
  after \<^verbatim>\<open>context\<close> is built, \<^verbatim>\<open>save\<close> runs \<^verbatim>\<open>context.update(self)\<close>,
  which puts the checkpoint's entry back over the local (\<^verbatim>\<open>_cached\<close> is
  not read by \<^verbatim>\<open>save\<close>). Here the local \<open>x = 2\<close> is eligible and not a
  parameter, the checkpoint holds \<open>x = 1\<close>, and the file holds \<open>x = 1\<close>.
\<close>

theorem save_prefers_entries_counterexample:
  "map_of (f_locals (plain_frame [''x''] 0 [(''x'', PInt 2)])) ''x'' = Some (PInt 2) \<and>
   ''x'' \<notin> set (parameters (plain_frame [''x''] 0 [(''x'', PInt 2)])) \<and>
   must_save ALLOWED_TYPES_default ''x'' (PInt 2) \<and>
   map_of (entries (sample_checkpoint [(''x'', PInt 1)] [])) ''x'' = Some (PInt 1) \<and>
   persisted
     (snd (save (sample_checkpoint [(''x'', PInt 1)] []) []
             (plain_frame [''x''] 0 [(''x'', PInt 2)]) 5 empty_world))
     ''f.pzip'' = Some [(''x'', PInt 1)]"
  by (simp add: persisted_def save_def save_context_def context_def dict_update_def
      sample_defs filter_defs)

text \<open>
  Claim C1, amended: the dictionary \<^verbatim>\<open>save\<close> writes gives every key the
  explicit \<^verbatim>\<open>**data\<close> value when there is one; otherwise the value of the
  checkpoint's own entry when there is one; otherwise the value of the caller's
  local of that name, when the name is not among \<^verbatim>\<open>calling_args\<close> and
  passes \<^verbatim>\<open>must_save\<close>; and no other key is written.
\<close>

theorem save_precedence:
  assumes "distinct (map fst (f_locals caller))"
    and "distinct (map fst (entries self))"
    and "distinct (map fst data)"
  shows "persisted (snd (save self data caller now w)) (filename self) =
           Some (save_context self data caller) \<and>
         map_of (save_context self data caller) k =
           (case map_of data k of
              Some v \<Rightarrow> Some v
            | None \<Rightarrow>
                (case map_of (entries self) k of
                   Some v \<Rightarrow> Some v
                 | None \<Rightarrow>
                     (case map_of (f_locals caller) k of
                        Some v \<Rightarrow>
                          if k \<notin> set (calling_args caller) \<and>
                             must_save (ALLOWED_TYPES self) k v
                          then Some v else None
                      | None \<Rightarrow> None)))"
  using assms by (simp add: persisted_save map_of_save_context)

theorem save_precedence_witness:
  "map_of (save_context
      (sample_checkpoint [(''x'', PInt 1), (''y'', PInt 10)] [])
      [(''x'', PInt 0)]
      (plain_frame [''n'', ''x'', ''y'', ''z''] 1
         [(''n'', PInt 9), (''x'', PInt 2), (''y'', PInt 20), (''z'', PInt 30)])) ''x''
     = Some (PInt 0) \<and>
   map_of (save_context
      (sample_checkpoint [(''x'', PInt 1), (''y'', PInt 10)] [])
      [(''x'', PInt 0)]
      (plain_frame [''n'', ''x'', ''y'', ''z''] 1
         [(''n'', PInt 9), (''x'', PInt 2), (''y'', PInt 20), (''z'', PInt 30)])) ''y''
     = Some (PInt 10) \<and>
   map_of (save_context
      (sample_checkpoint [(''x'', PInt 1), (''y'', PInt 10)] [])
      [(''x'', PInt 0)]
      (plain_frame [''n'', ''x'', ''y'', ''z''] 1
         [(''n'', PInt 9), (''x'', PInt 2), (''y'', PInt 20), (''z'', PInt 30)])) ''z''
     = Some (PInt 30) \<and>
   map_of (save_context
      (sample_checkpoint [(''x'', PInt 1), (''y'', PInt 10)] [])
      [(''x'', PInt 0)]
      (plain_frame [''n'', ''x'', ''y'', ''z''] 1
         [(''n'', PInt 9), (''x'', PInt 2), (''y'', PInt 20), (''z'', PInt 30)])) ''n''
     = None"
proof -
  let ?self = "sample_checkpoint [(''x'', PInt 1), (''y'', PInt 10)] []"
  let ?caller = "plain_frame [''n'', ''x'', ''y'', ''z''] 1
         [(''n'', PInt 9), (''x'', PInt 2), (''y'', PInt 20), (''z'', PInt 30)]"
  let ?data = "[(''x'', PInt 0)]"
  have d: "distinct (map fst (f_locals ?caller))" "distinct (map fst (entries ?self))"
    "distinct (map fst ?data)"
    by (simp_all add: sample_defs)
  show ?thesis
    using save_precedence [OF d, of 5 empty_world "''x''"]
      save_precedence [OF d, of 5 empty_world "''y''"]
      save_precedence [OF d, of 5 empty_world "''z''"]
      save_precedence [OF d, of 5 empty_world "''n''"]
    by (simp add: sample_defs filter_defs)
qed

text \<open>
  Claim C2, as stated: every entry \<^verbatim>\<open>save\<close> writes satisfies
  \<^verbatim>\<open>must_save\<close>, the explicit keyword arguments and the reserved
  random-state entry included. This fails: only the caller's locals go through
  the filter. The reserved key \<^verbatim>\<open>__rand_seed__\<close> starts with an underscore,
  so \<^verbatim>\<open>must_save\<close> rejects it, and it is written with every save; an
  explicit argument is written whatever its name and value.
\<close>

theorem save_unfiltered_entries_counterexample:
  "persisted
     (snd (save (sample_checkpoint [(NUMPY_RAND_SEED, sample_seed)] [])
             [(''_tmp'', PInstance ''Job'')]
             (plain_frame [''x''] 0 [(''x'', PInt 2)]) 5 empty_world))
     ''f.pzip''
     = Some [(NUMPY_RAND_SEED, sample_seed), (''x'', PInt 2), (''_tmp'', PInstance ''Job'')] \<and>
   \<not> must_save ALLOWED_TYPES_default NUMPY_RAND_SEED sample_seed \<and>
   \<not> must_save ALLOWED_TYPES_default ''_tmp'' (PInstance ''Job'')"
  by (simp add: persisted_def save_def save_context_def context_def dict_update_def
      sample_defs filter_defs)

text \<open>
  Claim C2, amended: every entry \<^verbatim>\<open>save\<close> writes whose key is neither an
  explicit keyword argument nor a key of the checkpoint itself was captured
  from the caller's scope: it is a local of the caller, not among
  \<^verbatim>\<open>calling_args\<close>, and \<^verbatim>\<open>must_save\<close> holds of it.
\<close>

theorem save_filters_scope_entries:
  assumes "distinct (map fst (f_locals caller))"
    and "distinct (map fst (entries self))"
    and "distinct (map fst data)"
    and "persisted (snd (save self data caller now w)) (filename self) = Some snap"
    and "map_of snap k = Some v"
    and "map_of data k = None"
    and "map_of (entries self) k = None"
  shows "must_save (ALLOWED_TYPES self) k v \<and>
         map_of (f_locals caller) k = Some v \<and>
         k \<notin> set (calling_args caller)"
proof -
  from assms(4) have snap: "snap = save_context self data caller"
    by (simp add: persisted_save)
  from assms(5) show ?thesis
    unfolding snap map_of_save_context [OF assms(1-3)]
    using assms(6,7) by (auto split: option.splits if_splits)
qed

theorem save_filters_scope_entries_witness:
  "must_save ALLOWED_TYPES_default ''x'' (PInt 2) \<and>
   ''x'' \<notin> set (calling_args (plain_frame [''n'', ''x'', ''chp''] 1
       [(''n'', PInt 9), (''x'', PInt 2), (''chp'', PInstance ''Checkpoint'')]))"
proof -
  let ?self = "sample_checkpoint [(NUMPY_RAND_SEED, sample_seed)] []"
  let ?caller = "plain_frame [''n'', ''x'', ''chp''] 1
       [(''n'', PInt 9), (''x'', PInt 2), (''chp'', PInstance ''Checkpoint'')]"
  let ?snap = "[(NUMPY_RAND_SEED, sample_seed), (''x'', PInt 2), (''extra'', PInt 4)]"
  have "persisted (snd (save ?self [(''extra'', PInt 4)] ?caller 5 empty_world)) (filename ?self)
          = Some ?snap"
    by (simp add: persisted_def save_def save_context_def context_def dict_update_def
      sample_defs filter_defs)
  from save_filters_scope_entries [OF _ _ _ this, of "''x''" "PInt 2"]
  show ?thesis
    by (simp add: sample_defs)
qed




text \<open>
  Claim C4, as stated: \<^verbatim>\<open>must_save(name, value)\<close> is true exactly when the
  name neither starts nor ends with an underscore, the value has no
  \<^verbatim>\<open>__dict__\<close> and it is an instance of the current whitelist. This fails for
  a name that ends with an underscore followed by a newline: the pattern's
  \<^verbatim>\<open>$\<close> also holds before a final newline, so the name is excluded although
  its last character is not an underscore.
\<close>

theorem must_save_trailing_newline_counterexample:
  "\<not> must_save ALLOWED_TYPES_default [CHR ''a'', CHR ''_'', newline] (PInt 1) \<and>
   hd [CHR ''a'', CHR ''_'', newline] \<noteq> CHR ''_'' \<and>
   last [CHR ''a'', CHR ''_'', newline] \<noteq> CHR ''_'' \<and>
   \<not> hasattr_dict (PInt 1) \<and>
   isinstance (PInt 1) ALLOWED_TYPES_default"
  by (simp add: must_save_def reg_exclude_match_def at_dollar_def isinstance_def
      ALLOWED_TYPES_default_def newline_def)

text \<open>
  Claim C4, amended: \<^verbatim>\<open>must_save(name, value)\<close> is true exactly when the
  name does not start with an underscore, does not end with an underscore or
  with an underscore followed by a newline, the value has no \<^verbatim>\<open>__dict__\<close>
  and it is an instance of the current whitelist. The predicate is a function of
  the whitelist, the name and the value alone: it reads and changes no state.
\<close>

theorem must_save_characterisation:
  "must_save allowed key val \<longleftrightarrow>
     \<not> (key \<noteq> [] \<and> hd key = CHR ''_'') \<and>
     \<not> (key \<noteq> [] \<and> last key = CHR ''_'') \<and>
     \<not> (\<exists>p. key = p @ [CHR ''_'', newline]) \<and>
     \<not> hasattr_dict val \<and>
     isinstance val allowed"
  unfolding must_save_def reg_exclude_match_def match_any_underscore_end_iff
    match_boundary_underscore_iff ends_with_char
  by auto

theorem must_save_characterisation_witness:
  "must_save ALLOWED_TYPES_default ''primes'' (PList [PInt 2, PInt 3]) \<and>
   \<not> must_save ALLOWED_TYPES_default ''chp'' (PInstance ''Checkpoint'') \<and>
   \<not> must_save ALLOWED_TYPES_default ''_tmp'' (PInt 1)"
  using must_save_characterisation [of ALLOWED_TYPES_default "''primes''" "PList [PInt 2, PInt 3]"]
    must_save_characterisation [of ALLOWED_TYPES_default "''chp''" "PInstance ''Checkpoint''"]
    must_save_characterisation [of ALLOWED_TYPES_default "''_tmp''" "PInt 1"]
  by (simp add: isinstance_def ALLOWED_TYPES_default_def newline_def)

text \<open>
  Claim C5, as stated: two \<^verbatim>\<open>sync()\<close> calls less than \<open>rate\<close> seconds
  apart produce exactly one write. This fails when the gate is closed at both
  calls, as it is right after a save: with the last save at 100 and rate 30,
  the calls at 101 and 102 write nothing.
\<close>

theorem sync_twice_no_write_counterexample:
  "(102 :: real) - 101 < rate ((sample_checkpoint [] [])\<lparr>modified := 100\<rparr>) \<and>
   writes (snd (sync
       (fst (sync ((sample_checkpoint [] [])\<lparr>modified := 100\<rparr>)
               (plain_frame [] 0 []) 101 101 empty_world))
       (plain_frame [] 0 []) 102 102
       (snd (sync ((sample_checkpoint [] [])\<lparr>modified := 100\<rparr>)
               (plain_frame [] 0 []) 101 101 empty_world))))
     = writes empty_world"
  by (simp add: sync_def sample_defs)

text \<open>
  Claim C5, amended: \<^verbatim>\<open>sync()\<close> writes exactly when
  \<open>now - modified \<ge> rate\<close> at the call; \<^verbatim>\<open>save()\<close> always writes and sets
  \<open>modified\<close> to the current time; two \<^verbatim>\<open>sync()\<close> calls less than
  \<open>rate\<close> seconds apart (the clock not running backwards during the first)
  produce at most one write, and exactly one when the gate is open at one of
  the two calls, in particular at the first; two \<^verbatim>\<open>save()\<close> calls produce
  two writes.
\<close>

theorem throttling:
  "writes (snd (sync self caller now now_saved w)) =
     writes w + (if now - modified self \<ge> rate self then 1 else 0) \<and>
   writes (snd (save self data caller now w)) = writes w + 1 \<and>
   modified (fst (save self data caller now w)) = now \<and>
   (t1 \<le> t1' \<and> t2 - t1 < rate self \<longrightarrow>
      writes (snd (sync (fst (sync self caller t1 t1' w)) caller' t2 t2'
                     (snd (sync self caller t1 t1' w)))) =
        writes w + (if t1 - modified self \<ge> rate self \<or> t2 - modified self \<ge> rate self
                    then 1 else 0)) \<and>
   writes (snd (save (fst (save self data caller t1 w)) data' caller' t2
                  (snd (save self data caller t1 w)))) = writes w + 2"
  by (auto simp: sync_def save_fields)

theorem throttling_witness:
  "writes (snd (sync (fst (sync (sample_checkpoint [] []) (plain_frame [] 0 []) 1000 1001 empty_world))
       (plain_frame [] 0 []) 1020 1021
       (snd (sync (sample_checkpoint [] []) (plain_frame [] 0 []) 1000 1001 empty_world)))) = 1 \<and>
   writes (snd (save (fst (save (sample_checkpoint [] []) [] (plain_frame [] 0 []) 1000 empty_world))
       [] (plain_frame [] 0 []) 1000
       (snd (save (sample_checkpoint [] []) [] (plain_frame [] 0 []) 1000 empty_world)))) = 2"
  using throttling [of "sample_checkpoint [] []" "plain_frame [] 0 []" 1000 1001 empty_world
      "[]" 1000 1001 1020 "plain_frame [] 0 []" 1021 "[]"]
  by (simp add: sample_defs sync_def save_def)

text \<open>
  Claim C6, as stated: \<^verbatim>\<open>_load\<close> returns an empty dictionary exactly when
  the file is absent, \<^verbatim>\<open>clean\<close> is set or the file is older than
  \<^verbatim>\<open>CACHE_EXPIRE\<close>. The "only when" half fails: a present, fresh file that
  holds an empty dictionary is read without \<^verbatim>\<open>clean\<close> and the result is
  empty as well.
\<close>

theorem load_empty_file_counterexample:
  "files (empty_world\<lparr>files := [''f.pzip'' \<mapsto> \<lparr>st_mtime = 100, content = Pickled []\<rparr>]\<rparr>)
      (filename (sample_checkpoint [] [])) = Some \<lparr>st_mtime = 100, content = Pickled []\<rparr> \<and>
   \<not> (101 - st_mtime \<lparr>st_mtime = 100, content = Pickled []\<rparr> > CACHE_EXPIRE) \<and>
   load (sample_checkpoint [] []) False 101
     (empty_world\<lparr>files := [''f.pzip'' \<mapsto> \<lparr>st_mtime = 100, content = Pickled []\<rparr>]\<rparr>) = Inr []"
  by (simp add: load_def sample_defs CACHE_EXPIRE_def)

text \<open>
  Claim C6, amended: \<^verbatim>\<open>_load\<close> returns an empty dictionary when the file
  is absent, when \<^verbatim>\<open>clean\<close> is set, and when the clock minus the file's
  modification time exceeds \<^verbatim>\<open>CACHE_EXPIRE\<close>; an expired file is treated as
  a missing one, by \<^verbatim>\<open>_load\<close> and by the whole constructor; in every other
  case \<^verbatim>\<open>_load\<close> returns what decoding the file's content gives. So the
  result is empty exactly in the three cases above or when the file itself holds
  an empty dictionary.
\<close>

theorem load_cases:
  "(files w (filename self) = None \<longrightarrow> load self clean now w = Inr []) \<and>
   (clean \<longrightarrow> load self clean now w = Inr []) \<and>
   (files w (filename self) = Some f \<and> now - st_mtime f > CACHE_EXPIRE \<longrightarrow>
      load self clean now w = Inr [] \<and>
      load self clean now w = load self clean now (w\<lparr>files := (files w)(filename self := None)\<rparr>) \<and>
      init (filename self) clean r allowed caller now now_saved w =
        init (filename self) clean r allowed caller now now_saved
          (w\<lparr>files := (files w)(filename self := None)\<rparr>)) \<and>
   (files w (filename self) = Some f \<and> \<not> clean \<and> \<not> now - st_mtime f > CACHE_EXPIRE \<longrightarrow>
      load self clean now w = pickle_load (content f)) \<and>
   (load self clean now w = Inr [] \<longleftrightarrow>
      files w (filename self) = None \<or> clean \<or>
      (\<exists>g. files w (filename self) = Some g \<and>
           (now - st_mtime g > CACHE_EXPIRE \<or> content g = Pickled [])))"
proof -
  have a: "files w (filename self) = None \<longrightarrow> load self clean now w = Inr []"
    by (simp add: load_def)
  have b: "clean \<longrightarrow> load self clean now w = Inr []"
    by (simp add: load_def split: option.splits)
  have c: "files w (filename self) = Some f \<and> now - st_mtime f > CACHE_EXPIRE \<longrightarrow>
      load self clean now w = Inr [] \<and>
      load self clean now w = load self clean now (w\<lparr>files := (files w)(filename self := None)\<rparr>) \<and>
      init (filename self) clean r allowed caller now now_saved w =
        init (filename self) clean r allowed caller now now_saved
          (w\<lparr>files := (files w)(filename self := None)\<rparr>)"
    by (simp add: load_def init_def new_checkpoint_def recover_internal_status_def
        dict_update_def save_def get_state_def Let_def)
  have d: "files w (filename self) = Some f \<and> \<not> clean \<and> \<not> now - st_mtime f > CACHE_EXPIRE \<longrightarrow>
      load self clean now w = pickle_load (content f)"
    by (simp add: load_def)
  have e: "load self clean now w = Inr [] \<longleftrightarrow>
      files w (filename self) = None \<or> clean \<or>
      (\<exists>g. files w (filename self) = Some g \<and>
           (now - st_mtime g > CACHE_EXPIRE \<or> content g = Pickled []))"
  proof (cases "files w (filename self)")
    case None
    then show ?thesis by (simp add: load_def)
  next
    case (Some g)
    then show ?thesis
      by (cases "content g") (auto simp: load_def)
  qed
  from a b c d e show ?thesis by blast
qed

theorem load_cases_witness:
  "load (sample_checkpoint [] []) False 200 empty_world = Inr [] \<and>
   load (sample_checkpoint [] []) True 200
     (empty_world\<lparr>files := [''f.pzip'' \<mapsto> \<lparr>st_mtime = 100, content = Pickled [(''x'', PInt 1)]\<rparr>]\<rparr>)
     = Inr [] \<and>
   load (sample_checkpoint [] []) False 90000
     (empty_world\<lparr>files := [''f.pzip'' \<mapsto> \<lparr>st_mtime = 100, content = Pickled [(''x'', PInt 1)]\<rparr>]\<rparr>)
     = Inr [] \<and>
   load (sample_checkpoint [] []) False 200
     (empty_world\<lparr>files := [''f.pzip'' \<mapsto> \<lparr>st_mtime = 100, content = Pickled [(''x'', PInt 1)]\<rparr>]\<rparr>)
     = Inr [(''x'', PInt 1)]"
proof -
  let ?c = "sample_checkpoint [] []"
  let ?f = "\<lparr>st_mtime = 100, content = Pickled [(''x'', PInt 1)]\<rparr>"
  let ?w = "empty_world\<lparr>files := [''f.pzip'' \<mapsto> ?f]\<rparr>"
  have a: "files empty_world (filename ?c) = None"
    by (simp add: sample_defs)
  have b: "files ?w (filename ?c) = Some ?f \<and> (90000 :: real) - st_mtime ?f > CACHE_EXPIRE"
    by (simp add: sample_defs CACHE_EXPIRE_def)
  have c: "files ?w (filename ?c) = Some ?f \<and> \<not> False \<and>
      \<not> (200 :: real) - st_mtime ?f > CACHE_EXPIRE"
    by (simp add: sample_defs CACHE_EXPIRE_def)
  have 1: "load ?c False 200 empty_world = Inr []"
    using load_cases [where w = empty_world and self = ?c and clean = False and now = 200] a
    by blast
  have 2: "load ?c True 200 ?w = Inr []"
    using load_cases [where w = ?w and self = ?c and clean = True and now = 200]
    by blast
  have 3: "load ?c False 90000 ?w = Inr []"
    using load_cases [where w = ?w and self = ?c and clean = False and now = 90000 and f = ?f] b
    by blast
  have 4: "load ?c False 200 ?w = pickle_load (content ?f)"
    using load_cases [where w = ?w and self = ?c and clean = False and now = 200 and f = ?f] c
    by blast
  from 1 2 3 4 show ?thesis by simp
qed

text \<open>
  Claim C7: when the file exists, is not expired, \<^verbatim>\<open>clean\<close> is not set and
  the content does not decode, \<^verbatim>\<open>_load\<close> raises the decoding error, and so
  does the constructor that called it: there is no fallback to an empty
  dictionary.
\<close>

theorem load_corrupt_raises:
  assumes "files w fname = Some f"
    and "\<not> clean"
    and "\<not> now - st_mtime f > CACHE_EXPIRE"
    and "pickle_load (content f) = Inl e"
  shows "load (new_checkpoint fname r allowed) clean now w = Inl e \<and>
         init fname clean r allowed caller now now_saved w = Inl e"
  using assms by (simp add: load_def init_def new_checkpoint_def)

theorem load_corrupt_raises_witness:
  "load (new_checkpoint ''f.pzip'' 30 ALLOWED_TYPES_default) False 200
     (empty_world\<lparr>files := [''f.pzip'' \<mapsto> \<lparr>st_mtime = 100, content = Corrupt\<rparr>]\<rparr>)
     = Inl DeserializationError \<and>
   init ''f.pzip'' False 30 ALLOWED_TYPES_default (plain_frame [] 0 []) 200 201
     (empty_world\<lparr>files := [''f.pzip'' \<mapsto> \<lparr>st_mtime = 100, content = Corrupt\<rparr>]\<rparr>)
     = Inl DeserializationError"
proof -
  let ?f = "\<lparr>st_mtime = 100, content = Corrupt\<rparr>"
  let ?w = "empty_world\<lparr>files := [''f.pzip'' \<mapsto> ?f]\<rparr>"
  have h: "files ?w ''f.pzip'' = Some ?f" "\<not> False" "\<not> 200 - st_mtime ?f > CACHE_EXPIRE"
    "pickle_load (content ?f) = Inl DeserializationError"
    by (simp_all add: CACHE_EXPIRE_def)
  show ?thesis
    using load_corrupt_raises [OF h, of 30 ALLOWED_TYPES_default "plain_frame [] 0 []" 201]
    by simp
qed

text \<open>
  Claim C8 says that \<^verbatim>\<open>restore\<close> never changes the value of a parameter of
  the calling routine. The loop skips \<^verbatim>\<open>co_varnames[:co_argcount]\<close>, and
  \<^verbatim>\<open>co_argcount\<close> does not count \<^verbatim>\<open>*args\<close> and \<^verbatim>\<open>**kwargs\<close>
  (\<open>restore_keeps_calling_args\<close> above covers the positional parameters). For
  a routine \<^verbatim>\<open>def f(*args)\<close> called with \<open>(1,)\<close>, a snapshot entry
  \<^verbatim>\<open>args\<close>, which an earlier \<^verbatim>\<open>save\<close> in the same routine writes, replaces
  the parameter's value.
\<close>

theorem restore_overwrites_varargs:
  "''args'' \<in> set (parameters
      \<lparr>f_locals = [(''args'', PTuple [PInt 1]), (''chp'', PInstance ''Checkpoint'')],
       co_varnames = [''args'', ''chp''], co_argcount = 0,
       co_varargs = True, co_varkeywords = False\<rparr>) \<and>
   map_of (f_locals (snd (restore
      (sample_checkpoint [(NUMPY_RAND_SEED, sample_seed)]
         [(NUMPY_RAND_SEED, sample_seed), (''args'', PTuple [PInt 2])])
      []
      \<lparr>f_locals = [(''args'', PTuple [PInt 1]), (''chp'', PInstance ''Checkpoint'')],
       co_varnames = [''args'', ''chp''], co_argcount = 0,
       co_varargs = True, co_varkeywords = False\<rparr>))) ''args'' = Some (PTuple [PInt 2])"
  by (simp add: restore_def dict_update_def has_key_def assign_in_place_def
      sample_defs filter_defs)

text \<open>
  Claim C9: when the dictionary loaded at construction has no entry under the
  reserved key, the constructor reads the generator's state, stores it under
  the reserved key in the checkpoint, and writes the file, which then holds
  that state; the generator is left as it was. When the loaded dictionary holds
  a generator state under the reserved key, the constructor puts the generator
  into that state, stores the state in the checkpoint and writes nothing.
\<close>

theorem first_run_seeding:
  "(load (new_checkpoint fname r allowed) clean now w = Inr snap \<and>
    distinct (map fst snap) \<and> map_of snap NUMPY_RAND_SEED = None \<longrightarrow>
      (\<exists>self' w'. init fname clean r allowed caller now now_saved w = Inr (self', w') \<and>
         map_of (entries self') NUMPY_RAND_SEED = Some (get_state w) \<and>
         (\<exists>d. persisted w' fname = Some d \<and> map_of d NUMPY_RAND_SEED = Some (get_state w)) \<and>
         writes w' = Suc (writes w) \<and> rng w' = rng w)) \<and>
   (load (new_checkpoint fname r allowed) clean now w = Inr snap \<and>
    distinct (map fst snap) \<and> map_of snap NUMPY_RAND_SEED = Some seed \<and>
    state_of seed = Some s \<longrightarrow>
      (\<exists>self'. init fname clean r allowed caller now now_saved w = Inr (self', w\<lparr>rng := s\<rparr>) \<and>
         map_of (entries self') NUMPY_RAND_SEED = Some seed \<and>
         files (w\<lparr>rng := s\<rparr>) = files w \<and> writes (w\<lparr>rng := s\<rparr>) = writes w))"
proof (intro conjI impI)
  assume h: "load (new_checkpoint fname r allowed) clean now w = Inr snap \<and>
    distinct (map fst snap) \<and> map_of snap NUMPY_RAND_SEED = None"
  let ?self = "(new_checkpoint fname r allowed)
      \<lparr>cached := snap, entries := [(NUMPY_RAND_SEED, get_state w)]\<rparr>"
  have i: "init fname clean r allowed caller now now_saved w =
      Inr (save ?self [] caller now_saved w)"
    using h by (simp add: init_def recover_internal_status_def map_of_dict_update
        new_checkpoint_def Let_def)
  have p: "persisted (snd (save ?self [] caller now_saved w)) fname =
      Some (save_context ?self [] caller)"
    using persisted_save [of ?self "[]" caller now_saved w] by (simp add: new_checkpoint_def)
  have m: "map_of (save_context ?self [] caller) NUMPY_RAND_SEED = Some (get_state w)"
    by (rule map_of_save_context_entry) simp
  show "\<exists>self' w'. init fname clean r allowed caller now now_saved w = Inr (self', w') \<and>
         map_of (entries self') NUMPY_RAND_SEED = Some (get_state w) \<and>
         (\<exists>d. persisted w' fname = Some d \<and> map_of d NUMPY_RAND_SEED = Some (get_state w)) \<and>
         writes w' = Suc (writes w) \<and> rng w' = rng w"
  proof (intro exI conjI)
    show "init fname clean r allowed caller now now_saved w =
        Inr (fst (save ?self [] caller now_saved w), snd (save ?self [] caller now_saved w))"
      using i by simp
    show "map_of (entries (fst (save ?self [] caller now_saved w))) NUMPY_RAND_SEED =
        Some (get_state w)"
      by (simp add: save_def)
    show "persisted (snd (save ?self [] caller now_saved w)) fname =
        Some (save_context ?self [] caller)" by (rule p)
    show "map_of (save_context ?self [] caller) NUMPY_RAND_SEED = Some (get_state w)" by (rule m)
    show "writes (snd (save ?self [] caller now_saved w)) = Suc (writes w)"
      by (simp add: save_def)
    show "rng (snd (save ?self [] caller now_saved w)) = rng w"
      by (simp add: save_def)
  qed
next
  assume h: "load (new_checkpoint fname r allowed) clean now w = Inr snap \<and>
    distinct (map fst snap) \<and> map_of snap NUMPY_RAND_SEED = Some seed \<and>
    state_of seed = Some s"
  then have ne: "seed \<noteq> PNone" by auto
  show "\<exists>self'. init fname clean r allowed caller now now_saved w = Inr (self', w\<lparr>rng := s\<rparr>) \<and>
         map_of (entries self') NUMPY_RAND_SEED = Some seed \<and>
         files (w\<lparr>rng := s\<rparr>) = files w \<and> writes (w\<lparr>rng := s\<rparr>) = writes w"
    using h ne
    by (simp add: init_def recover_internal_status_def map_of_dict_update set_state_def
        new_checkpoint_def Let_def)
qed

theorem first_run_seeding_witness:
  "(\<exists>self' w'.
      init ''f.pzip'' False 30 ALLOWED_TYPES_default (plain_frame [] 0 []) 200 201 empty_world
        = Inr (self', w') \<and>
      map_of (entries self') NUMPY_RAND_SEED = Some (PTuple [PStr ''MT19937'', PInt 0]) \<and>
      (\<exists>d. persisted w' ''f.pzip'' = Some d \<and>
           map_of d NUMPY_RAND_SEED = Some (PTuple [PStr ''MT19937'', PInt 0])) \<and>
      writes w' = 1 \<and> rng w' = 0) \<and>
   (\<exists>self'.
      init ''f.pzip'' False 30 ALLOWED_TYPES_default (plain_frame [] 0 []) 200 201
        (empty_world\<lparr>files := [''f.pzip'' \<mapsto>
            \<lparr>st_mtime = 100, content = Pickled [(NUMPY_RAND_SEED, sample_seed)]\<rparr>]\<rparr>)
        = Inr (self', (empty_world\<lparr>files := [''f.pzip'' \<mapsto>
            \<lparr>st_mtime = 100, content = Pickled [(NUMPY_RAND_SEED, sample_seed)]\<rparr>]\<rparr>)\<lparr>rng := 7\<rparr>) \<and>
      map_of (entries self') NUMPY_RAND_SEED = Some sample_seed)"
proof -
  let ?c = "new_checkpoint ''f.pzip'' 30 ALLOWED_TYPES_default"
  let ?w = "empty_world\<lparr>files := [''f.pzip'' \<mapsto>
            \<lparr>st_mtime = 100, content = Pickled [(NUMPY_RAND_SEED, sample_seed)]\<rparr>]\<rparr>"
  have a: "load ?c False 200 empty_world = Inr [] \<and>
    distinct (map fst ([] :: pydict)) \<and> map_of ([] :: pydict) NUMPY_RAND_SEED = None"
    by (simp add: load_def new_checkpoint_def empty_world_def)
  have b: "load ?c False 200 ?w = Inr [(NUMPY_RAND_SEED, sample_seed)] \<and>
    distinct (map fst [(NUMPY_RAND_SEED, sample_seed)]) \<and>
    map_of [(NUMPY_RAND_SEED, sample_seed)] NUMPY_RAND_SEED = Some sample_seed \<and>
    state_of sample_seed = Some 7"
    by (simp add: load_def new_checkpoint_def empty_world_def CACHE_EXPIRE_def sample_seed_def)
  from first_run_seeding [of "''f.pzip''" 30 ALLOWED_TYPES_default False 200 empty_world "[]"
      "plain_frame [] 0 []" 201, THEN conjunct1, rule_format, OF a]
    first_run_seeding [of "''f.pzip''" 30 ALLOWED_TYPES_default False 200 ?w
      "[(NUMPY_RAND_SEED, sample_seed)]" _ _ sample_seed 7, THEN conjunct2, rule_format, OF b,
      of "plain_frame [] 0 []" 201]
  show ?thesis
    by (simp add: get_state_def empty_world_def)
qed

text \<open>
  Claim C10: an entry of the loaded snapshot whose name is not a parameter of
  the caller, is not bound in the caller's scope and is not a key of the
  checkpoint is dropped by \<^verbatim>\<open>restore\<close>: afterwards the name is bound neither
  in the caller's scope nor in the checkpoint, and the loaded snapshot is
  cleared.
\<close>

theorem restore_discards_unbound:
  assumes "map_of (cached self) k = Some v"
    and "k \<notin> set (parameters caller)"
    and "\<not> has_key (f_locals caller) k"
    and "\<not> has_key (entries self) k"
  shows "\<not> has_key (f_locals (snd (restore self data caller))) k \<and>
         \<not> has_key (entries (fst (restore self data caller))) k \<and>
         cached (fst (restore self data caller)) = []"
  unfolding restore_f_locals restore_entries restore_cached
  using restore_loop_keys [OF surjective_pairing] assms(3,4) by blast

theorem restore_discards_unbound_witness:
  "\<not> has_key (f_locals (snd (restore
        (sample_checkpoint [(NUMPY_RAND_SEED, sample_seed)]
           [(NUMPY_RAND_SEED, sample_seed), (''primes'', PList [PInt 2, PInt 3])])
        [] (plain_frame [''n'', ''chp''] 1 [(''n'', PInt 5), (''chp'', PInstance ''Checkpoint'')]))))
      ''primes'' \<and>
   \<not> has_key (entries (fst (restore
        (sample_checkpoint [(NUMPY_RAND_SEED, sample_seed)]
           [(NUMPY_RAND_SEED, sample_seed), (''primes'', PList [PInt 2, PInt 3])])
        [] (plain_frame [''n'', ''chp''] 1 [(''n'', PInt 5), (''chp'', PInstance ''Checkpoint'')]))))
      ''primes''"
proof -
  let ?self = "sample_checkpoint [(NUMPY_RAND_SEED, sample_seed)]
           [(NUMPY_RAND_SEED, sample_seed), (''primes'', PList [PInt 2, PInt 3])]"
  let ?caller = "plain_frame [''n'', ''chp''] 1 [(''n'', PInt 5), (''chp'', PInstance ''Checkpoint'')]"
  have h: "map_of (cached ?self) ''primes'' = Some (PList [PInt 2, PInt 3])"
    "''primes'' \<notin> set (parameters ?caller)"
    "\<not> has_key (f_locals ?caller) ''primes''"
    "\<not> has_key (entries ?self) ''primes''"
    by (simp_all add: sample_defs has_key_def)
  show ?thesis
    using restore_discards_unbound [OF h, of "[]"] by simp
qed

end
